theory Spec2Isabelle
  imports Complex_Main "HOL-Library.Sublist"
begin

section \<open>Python values shared by the three scripts\<close>

text \<open>
  The exceptions that the modelled code raises or lets through.  The last two derive
  from \<open>BaseException\<close> only, so a handler written \<open>except Exception\<close> does not
  catch them; every other one is an \<open>Exception\<close>.  \<open>GraphRecursionError\<close> is what
  the graph runtime raises when a run needs more steps than its recursion limit.
\<close>

datatype py_exception =
    IndexError
  | AttributeError
  | KeyError string
  | ValueError string
  | RuntimeError string
  | GraphRecursionError
  | KeyboardInterrupt
  | CancelledError

fun isinstance_Exception :: "py_exception \<Rightarrow> bool" where
  "isinstance_Exception KeyboardInterrupt = False"
| "isinstance_Exception CancelledError = False"
| "isinstance_Exception e = True"

section \<open>music\_router.py: the LangGraph tool loop\<close>

subsection \<open>Messages\<close>

text \<open>
  A tool call as the chat model returns it (\<open>name\<close>, \<open>args\<close>, \<open>id\<close>), and the three
  message classes the graph state holds.  Only \<open>AIMessage\<close> has the attribute
  \<open>tool_calls\<close>.
\<close>

datatype tool_call = ToolCall (tc_name: string) (tc_args: "(string \<times> string) list") (tc_id: string)

datatype tool_status = StatusSuccess | StatusError

datatype message =
    HumanMessage (content: string)
  | AIMessage (content: string) "tool_call list"
  | ToolMessage (content: string) (tool_call_id: string) (status: tool_status)

type_synonym MessagesState = "message list"

text \<open>
  Modelled from the spec: the reducer of \<open>MessagesState\<close> (declared in langgraph, not
  in this repository).  A node returns \<open>{"messages": [...]}\<close> and the Message Store
  ``adds to the ordered sequence''.
\<close>

definition add_messages :: "MessagesState \<Rightarrow> message list \<Rightarrow> MessagesState" where
  "add_messages left right = left @ right"

subsection \<open>The nodes and the routing function\<close>

text \<open>
  \<open>should_continue\<close>: \<open>messages[-1]\<close> raises \<open>IndexError\<close> on an empty list, and
  reading \<open>tool_calls\<close> of a message that is not an \<open>AIMessage\<close> raises
  \<open>AttributeError\<close>.  An empty list is falsy.
\<close>

definition should_continue :: "MessagesState \<Rightarrow> py_exception + string" where
  "should_continue messages =
     (case messages of
        [] \<Rightarrow> Inl IndexError
      | _ # _ \<Rightarrow>
         (case last messages of
            AIMessage c tcs \<Rightarrow> Inr (if tcs = [] then ''end'' else ''continue'')
          | _ \<Rightarrow> Inl AttributeError))"

text \<open>
  \<open>call_model\<close>: \<open>MODEL.invoke(messages)\<close> is the external model capability.  Its
  answer to this invocation is the parameter \<open>response\<close>: a message, or the exception
  the invocation raised, which \<open>call_model\<close> lets through.
\<close>

type_synonym model_result = "py_exception + message"

definition call_model :: "model_result \<Rightarrow> MessagesState \<Rightarrow> py_exception + message list" where
  "call_model response messages =
     (case response of Inl e \<Rightarrow> Inl e | Inr r \<Rightarrow> Inr [r])"

text \<open>
  The graph: \<open>add_edge(START, "agent")\<close>, \<open>add_edge("action", "agent")\<close> and the
  conditional edge of \<open>agent\<close>, whose path map is
  \<open>{"continue": "action", "end": END}\<close>.
\<close>

datatype node = START | Agent | Action | END

definition path_map :: "string \<Rightarrow> node option" where
  "path_map label =
     (if label = ''continue'' then Some Action
      else if label = ''end'' then Some END
      else None)"

definition route :: "MessagesState \<Rightarrow> py_exception + node" where
  "route messages =
     (case should_continue messages of
        Inl e \<Rightarrow> Inl e
      | Inr label \<Rightarrow>
         (case path_map label of
            None \<Rightarrow> Inl (KeyError label)
          | Some n \<Rightarrow> Inr n))"

subsection \<open>Running the compiled graph\<close>

text \<open>
  A run of the compiled graph, as \<open>APP.stream(..., stream_mode="values")\<close> performs it.
  It is driven by the answers of the model to its successive invocations (the script
  \<open>sc\<close>) and by the tool node \<open>tn\<close>, which maps the state to the tool messages it
  returns.  The stream yields the input state and then the whole state after each node
  that ran; an event is such a state with the node it follows (\<open>START\<close> for the
  input).  A node that raises yields no state, and reaching \<open>END\<close> yields none.

  The runtime bounds the number of steps of a run by its recursion limit, a setting of
  langgraph that \<open>main\<close> leaves at its default.  It is the parameter \<open>limit\<close>: each
  node that runs takes one step, and a node that would have to run when no step is
  left makes the run raise \<open>GraphRecursionError\<close>.

  A run ends at \<open>END\<close> with the final state, or by an exception, or with
  \<open>NoResponse\<close> when the agent node invokes the model and the script holds no further
  answer.
\<close>

datatype outcome = Finished MessagesState | Raised py_exception | NoResponse

type_synonym event = "node \<times> MessagesState"

definition visit :: "event \<Rightarrow> event list \<times> outcome \<Rightarrow> event list \<times> outcome" where
  "visit ev r = (ev # fst r, snd r)"

function run ::
  "nat \<Rightarrow> (MessagesState \<Rightarrow> message list) \<Rightarrow> node \<Rightarrow> MessagesState \<Rightarrow> model_result list
     \<Rightarrow> event list \<times> outcome"
where
  "run limit tn START st sc = visit (START, st) (run limit tn Agent st sc)"
| "run limit tn Agent st [] =
     (if limit = 0 then ([], Raised GraphRecursionError) else ([], NoResponse))"
| "run limit tn Agent st (r # sc) =
     (if limit = 0 then ([], Raised GraphRecursionError)
      else
        (case call_model r st of
           Inl e \<Rightarrow> ([], Raised e)
         | Inr upd \<Rightarrow>
            (case route (add_messages st upd) of
               Inl e \<Rightarrow> ([], Raised e)
             | Inr n \<Rightarrow>
                visit (Agent, add_messages st upd)
                  (run (limit - 1) tn n (add_messages st upd) sc))))"
| "run limit tn Action st sc =
     (if limit = 0 then ([], Raised GraphRecursionError)
      else
        visit (Action, add_messages st (tn st))
          (run (limit - 1) tn Agent (add_messages st (tn st)) sc))"
| "run limit tn END st sc = ([], Finished st)"
  by pat_completeness auto
termination
  by (relation "measure (\<lambda>(limit, tn, n, st, sc).
        2 * length sc + (case n of START \<Rightarrow> 1 | Agent \<Rightarrow> 0 | Action \<Rightarrow> 1 | END \<Rightarrow> 0))")
     (auto split: node.splits)

text \<open>
  weekend\_planner.py (LangChain), \<open>main\<close>: the answer shown to the user is
  \<open>response["messages"][-1].content\<close>.
\<close>

definition latest_message_content :: "MessagesState \<Rightarrow> py_exception + string" where
  "latest_message_content messages =
     (case messages of [] \<Rightarrow> Inl IndexError | _ # _ \<Rightarrow> Inr (content (last messages)))"


fun is_final_answer :: "message \<Rightarrow> bool" where
  "is_final_answer (AIMessage c tcs) = (tcs = [])"
| "is_final_answer _ = False"


subsection \<open>The tools and the tool node\<close>

definition play_song_on_spotify :: "string \<Rightarrow> string" where
  "play_song_on_spotify song = ''Successfully played '' @ song @ '' on Spotify!''"

definition play_song_on_apple :: "string \<Rightarrow> string" where
  "play_song_on_apple song = ''Successfully played '' @ song @ '' on Apple Music!''"

text \<open>
  Modelled from the spec: the Tool Dispatcher and the \<open>ACTION\<close> step, which the
  script takes from \<open>langgraph.prebuilt.ToolNode\<close>.  A capability maps the structured
  arguments to a result or a failure; \<open>execute\<close> turns an unknown tool name and a
  failing capability into a tool message carrying the failure marker, and never
  raises.  The two registered capabilities bind the argument \<open>song\<close> of the two
  tools above.
\<close>

type_synonym capability = "(string \<times> string) list \<Rightarrow> string + string"

definition song_capability :: "(string \<Rightarrow> string) \<Rightarrow> capability" where
  "song_capability f arguments =
     (case map_of arguments ''song'' of
        None \<Rightarrow> Inl ''ToolExecutionFailure: song''
      | Some song \<Rightarrow> Inr (f song))"

definition tool_registry :: "(string \<times> capability) list" where
  "tool_registry =
     [(''play_song_on_spotify'', song_capability play_song_on_spotify),
      (''play_song_on_apple'', song_capability play_song_on_apple)]"

definition execute :: "(string \<times> capability) list \<Rightarrow> tool_call \<Rightarrow> message" where
  "execute registry call =
     (case map_of registry (tc_name call) of
        None \<Rightarrow> ToolMessage (''UnknownTool: '' @ tc_name call) (tc_id call) StatusError
      | Some capability \<Rightarrow>
         (case capability (tc_args call) of
            Inl failure \<Rightarrow> ToolMessage failure (tc_id call) StatusError
          | Inr result \<Rightarrow> ToolMessage result (tc_id call) StatusSuccess))"

text \<open>
  Modelled from the spec: the pending requests are the \<open>tool_calls\<close> of the
  immediately preceding assistant message.  The executions complete in the order
  \<open>completion\<close> (positions in \<open>tool_calls\<close>; sequential execution is the order
  \<open>[0..<n]\<close>, parallel execution any other); each result is kept under the position
  of its request, and the feedback is read off by position.
\<close>

definition pending_calls :: "MessagesState \<Rightarrow> tool_call list" where
  "pending_calls messages =
     (case messages of
        [] \<Rightarrow> []
      | _ # _ \<Rightarrow> (case last messages of AIMessage c tcs \<Rightarrow> tcs | _ \<Rightarrow> []))"

definition completed_results ::
  "(string \<times> capability) list \<Rightarrow> nat list \<Rightarrow> tool_call list \<Rightarrow> (nat \<times> message) list" where
  "completed_results registry completion calls =
     map (\<lambda>i. (i, execute registry (calls ! i))) (filter (\<lambda>i. i < length calls) completion)"

definition dispatch_all ::
  "(string \<times> capability) list \<Rightarrow> nat list \<Rightarrow> tool_call list \<Rightarrow> message list" where
  "dispatch_all registry completion calls =
     List.map_filter (map_of (completed_results registry completion calls)) [0..<length calls]"

definition action_node ::
  "(string \<times> capability) list \<Rightarrow> nat list \<Rightarrow> MessagesState \<Rightarrow> message list" where
  "action_node registry completion messages =
     dispatch_all registry completion (pending_calls messages)"

definition TOOL_NODE :: "MessagesState \<Rightarrow> message list" where
  "TOOL_NODE messages =
     action_node tool_registry [0..<length (pending_calls messages)] messages"

subsection \<open>The checkpointer\<close>

text \<open>
  Modelled from the spec: the Message Store with its checkpoints, which the script
  takes from \<open>langgraph.checkpoint.memory.MemorySaver\<close>.  The store keeps one
  ConversationState per thread; \<open>append\<close> creates an unknown thread unless the store
  requires pre-registration; the snapshot token is the thread id and the message
  sequence, nothing more, and \<open>restore\<close> is a pure function of the token.  The
  turn count of a restored state is recomputed from the messages by \<open>count_turns\<close>,
  which the spec leaves open.
\<close>

datatype store_error = UnknownThread | NotFound

record ConversationState =
  cs_thread_id :: string
  cs_messages :: "message list"
  cs_turn_count :: nat

record snapshot =
  snap_thread_id :: string
  snap_messages :: "message list"

type_synonym message_store = "string \<rightharpoonup> ConversationState"

definition append ::
  "bool \<Rightarrow> message_store \<Rightarrow> string \<Rightarrow> message \<Rightarrow> store_error + message_store" where
  "append require_registration store tid m =
     (case store tid of
        None \<Rightarrow>
          if require_registration then Inl UnknownThread
          else Inr (store(tid \<mapsto> \<lparr>cs_thread_id = tid, cs_messages = [m], cs_turn_count = 0\<rparr>))
      | Some cs \<Rightarrow> Inr (store(tid \<mapsto> cs\<lparr>cs_messages := cs_messages cs @ [m]\<rparr>)))"

fun append_all ::
  "bool \<Rightarrow> message_store \<Rightarrow> string \<Rightarrow> message list \<Rightarrow> store_error + message_store" where
  "append_all require_registration store tid [] = Inr store"
| "append_all require_registration store tid (m # ms) =
     (case append require_registration store tid m of
        Inl e \<Rightarrow> Inl e
      | Inr store' \<Rightarrow> append_all require_registration store' tid ms)"

definition load :: "message_store \<Rightarrow> string \<Rightarrow> store_error + message list" where
  "load store tid =
     (case store tid of None \<Rightarrow> Inl NotFound | Some cs \<Rightarrow> Inr (cs_messages cs))"

definition checkpoint :: "message_store \<Rightarrow> string \<Rightarrow> store_error + snapshot" where
  "checkpoint store tid =
     (case store tid of
        None \<Rightarrow> Inl NotFound
      | Some cs \<Rightarrow> Inr \<lparr>snap_thread_id = tid, snap_messages = cs_messages cs\<rparr>)"

definition restore :: "(message list \<Rightarrow> nat) \<Rightarrow> snapshot \<Rightarrow> ConversationState" where
  "restore count_turns token =
     \<lparr>cs_thread_id = snap_thread_id token,
      cs_messages = snap_messages token,
      cs_turn_count = count_turns (snap_messages token)\<rparr>"

section \<open>Configuration from the environment\<close>








subsection \<open>weekend\_planner.py (OpenAI Agents): \_resolve\_api\_config\<close>

text \<open>
  \<open>build_client\<close> is a closure over the values read here; it is kept as the
  constructor call it will make.  The Azure credential and token provider are external
  objects and are left out.
\<close>

datatype client_spec =
    AsyncOpenAI string string
  | AsyncAzureOpenAI string string

record ApiConfig =
  build_client :: client_spec
  model_name :: string
  base_url :: string
  provider :: string


subsection \<open>music\_router.py and weekend\_planner.py (LangChain): \_build\_model\<close>



section \<open>weekend\_planner.py: the tools\<close>

datatype py_value = PyStr string | PyInt int | PyBool bool

text \<open>
  \<open>get_weather\<close> of the OpenAI Agents script; \<open>draw\<close> is the value of
  \<open>random.random()\<close>.  The LangChain script has the same tool with a \<open>date\<close>
  argument and without the \<open>city\<close> entry.
\<close>

definition get_weather :: "real \<Rightarrow> string \<Rightarrow> (string \<times> py_value) list" where
  "get_weather draw city =
     (if draw < 0.05
      then [(''city'', PyStr city), (''temperature'', PyInt 72), (''description'', PyStr ''Sunny'')]
      else [(''city'', PyStr city), (''temperature'', PyInt 60), (''description'', PyStr ''Rainy'')])"

definition get_weather_langchain :: "real \<Rightarrow> string \<Rightarrow> string \<Rightarrow> (string \<times> py_value) list" where
  "get_weather_langchain draw city date =
     (if draw < 0.05
      then [(''temperature'', PyInt 72), (''description'', PyStr ''Sunny'')]
      else [(''temperature'', PyInt 60), (''description'', PyStr ''Rainy'')])"

section \<open>weekend\_planner.py (OpenAI Agents): the traced session\<close>

text \<open>
  The root span: its attributes (a later write to a key replaces the earlier one), the
  exceptions recorded on it, one entry per call of \<open>record_exception\<close>, its status
  code, and how many times it was ended.
\<close>

datatype status_code = UNSET | OK | ERROR

record span =
  span_name :: string
  attributes :: "string \<rightharpoonup> py_value"
  exceptions :: "py_exception list"
  span_status :: status_code
  ended :: nat

definition start_span :: "string \<Rightarrow> span" where
  "start_span n =
     \<lparr>span_name = n, attributes = Map.empty, exceptions = [], span_status = UNSET, ended = 0\<rparr>"

definition set_status :: "span \<Rightarrow> status_code \<Rightarrow> span" where
  "set_status s c = s\<lparr>span_status := c\<rparr>"

definition set_attribute :: "span \<Rightarrow> string \<Rightarrow> py_value \<Rightarrow> span" where
  "set_attribute s k v = s\<lparr>attributes := (attributes s)(k \<mapsto> v)\<rparr>"

definition record_exception :: "span \<Rightarrow> py_exception \<Rightarrow> span" where
  "record_exception s exc = s\<lparr>exceptions := exceptions s @ [exc]\<rparr>"

definition span_end :: "span \<Rightarrow> span" where
  "span_end s = s\<lparr>ended := ended s + 1\<rparr>"

definition root_span_name :: "string \<Rightarrow> string" where
  "root_span_name p = ''weekend_planning_session['' @ p @ '']''"

definition AGENT_name :: string where
  "AGENT_name = ''Weekend Planner''"

text \<open>
  The \<open>with\<close> block of \<open>start_as_current_span\<close>, entered with the library's
  defaults (\<open>record_exception\<close>, \<open>set_status_on_exception\<close> and \<open>end_on_exit\<close> all
  true).  When the body is left by an \<open>Exception\<close>, the block records it on the span
  and sets the status to \<open>ERROR\<close> before the exception goes on to the caller; on
  every way out it ends the span.
\<close>

definition exit_current_span ::
  "span \<times> (py_exception + unit) \<Rightarrow> span \<times> (py_exception + unit)" where
  "exit_current_span body =
     (case snd body of
        Inr u \<Rightarrow> (span_end (fst body), Inr u)
      | Inl exc \<Rightarrow>
          if isinstance_Exception exc
          then (span_end (set_status (record_exception (fst body) exc) ERROR), Inl exc)
          else (span_end (fst body), Inl exc))"

text \<open>
  \<open>main\<close>.  \<open>Runner.run\<close> is the external agent loop: \<open>run_result\<close> is the exception it
  raised, or the \<open>final_output\<close> of its result (\<open>None\<close> when there is none).  The
  handler \<open>except Exception\<close> records the exception, sets \<open>request.success\<close> and
  raises it again; it leaves an exception that is not an \<open>Exception\<close> alone.
\<close>

definition main :: "ApiConfig \<Rightarrow> py_exception + string option \<Rightarrow> span \<times> (py_exception + unit)" where
  "main cfg run_result =
     (let user_request = ''Hi, what can I do this weekend in Seattle?'';
          s0 = start_span (root_span_name (provider cfg));
          s1 = set_attribute s0 ''user.request'' (PyStr user_request);
          s2 = set_attribute s1 ''gen_ai.provider.name'' (PyStr (provider cfg));
          s3 = set_attribute s2 ''gen_ai.request.model'' (PyStr (model_name cfg));
          s4 = set_attribute s3 ''agent.name'' (PyStr AGENT_name);
          s5 = set_attribute s4 ''target.city'' (PyStr ''Seattle'')
      in exit_current_span
           (case run_result of
              Inr final_output \<Rightarrow>
                (let output = (case final_output of None \<Rightarrow> [] | Some text \<Rightarrow> text);
                     s6 = set_attribute s5 ''agent.response'' (PyStr (take 500 output));
                     s7 = set_attribute s6 ''request.success'' (PyBool True)
                 in (s7, Inr ()))
            | Inl exc \<Rightarrow>
                if isinstance_Exception exc
                then (set_attribute (record_exception s5 exc) ''request.success'' (PyBool False),
                      Inl exc)
                else (s5, Inl exc)))"


section \<open>Properties of the LangGraph tool loop\<close>

subsection \<open>One step of the agent node\<close>

lemma route_after_response:
  "route (st @ [AIMessage c tcs]) = Inr (if tcs = [] then END else Action)"
  by (cases st) (auto simp: route_def should_continue_def path_map_def)





lemma run_final:
  "is_final_answer m \<Longrightarrow>
   run (Suc l) tn Agent st (Inr m # sc) = ([(Agent, st @ [m])], Finished (st @ [m]))"
  by (cases m) (auto simp: call_model_def add_messages_def route_after_response visit_def)

declare run.simps [simp del]


lemma snd_visit: "snd (visit ev r) = snd r"
  by (simp add: visit_def)

lemma events_visit: "map snd (fst (visit ev r)) = snd ev # map snd (fst r)"
  by (simp add: visit_def)


lemma run_START: "run limit tn START st sc = visit (START, st) (run limit tn Agent st sc)"
  by (simp add: run.simps)

subsection \<open>Tool rounds within the recursion limit\<close>




subsection \<open>Tool rounds beyond the recursion limit\<close>




subsection \<open>The history only grows\<close>

lemma sorted_wrt_prefix_Cons:
  "prefix st st' \<Longrightarrow> sorted_wrt prefix (st' # xs) \<Longrightarrow> sorted_wrt prefix (st # st' # xs)"
  by (auto intro: prefix_order.trans)

lemma run_events_prefix:
  "sorted_wrt prefix (st # map snd (fst (run limit tn n st sc)))"
proof (induction limit tn n st sc rule: run.induct)
  case (1 limit tn st sc)
  then show ?case
    by (simp add: run.simps events_visit)
next
  case (2 limit tn st)
  then show ?case by (simp add: run.simps)
next
  case (3 limit tn st r sc)
  show ?case
  proof (cases "limit = 0")
    case True
    then show ?thesis by (simp add: run.simps)
  next
    case False
    note limit = this
    show ?thesis
    proof (cases "call_model r st")
      case (Inl e)
      then show ?thesis using limit by (simp add: run.simps)
    next
      case (Inr upd)
      note upd = this
      show ?thesis
      proof (cases "route (add_messages st upd)")
        case (Inl e)
        then show ?thesis using limit upd by (simp add: run.simps)
      next
        case (Inr n)
        have "sorted_wrt prefix
                (add_messages st upd
                   # map snd (fst (run (limit - 1) tn n (add_messages st upd) sc)))"
          using "3.IH" [OF limit upd Inr] .
        moreover have "prefix st (add_messages st upd)"
          by (simp add: add_messages_def)
        ultimately show ?thesis
          using limit upd Inr
          by (simp add: run.simps events_visit sorted_wrt_prefix_Cons del: sorted_wrt.simps)
      qed
    qed
  qed
next
  case (4 limit tn st sc)
  show ?case
  proof (cases "limit = 0")
    case True
    then show ?thesis by (simp add: run.simps)
  next
    case False
    have "prefix st (add_messages st (tn st))"
      by (simp add: add_messages_def)
    with "4.IH" [OF False] False show ?thesis
      by (simp add: run.simps events_visit sorted_wrt_prefix_Cons del: sorted_wrt.simps)
  qed
next
  case (5 limit tn st sc)
  then show ?case by (simp add: run.simps)
qed

lemma run_finished_prefix:
  "snd (run limit tn n st sc) = Finished st' \<Longrightarrow> prefix st st'"
proof (induction limit tn n st sc arbitrary: st' rule: run.induct)
  case (1 limit tn st sc)
  then show ?case by (simp add: run.simps snd_visit)
next
  case (2 limit tn st)
  then show ?case by (simp add: run.simps split: if_splits)
next
  case (3 limit tn st r sc)
  show ?case
  proof (cases "limit = 0")
    case True
    with "3.prems" show ?thesis by (simp add: run.simps)
  next
    case False
    note limit = this
    show ?thesis
    proof (cases "call_model r st")
      case (Inl e)
      with "3.prems" limit show ?thesis by (simp add: run.simps)
    next
      case (Inr upd)
      note upd = this
      show ?thesis
      proof (cases "route (add_messages st upd)")
        case (Inl e)
        with "3.prems" limit upd show ?thesis by (simp add: run.simps)
      next
        case (Inr n)
        with "3.prems" limit upd
        have "snd (run (limit - 1) tn n (add_messages st upd) sc) = Finished st'"
          by (simp add: run.simps snd_visit)
        from "3.IH" [OF limit upd Inr this] have "prefix (add_messages st upd) st'" .
        then show ?thesis
          unfolding add_messages_def by (rule append_prefixD)
      qed
    qed
  qed
next
  case (4 limit tn st sc)
  show ?case
  proof (cases "limit = 0")
    case True
    with "4.prems" show ?thesis by (simp add: run.simps)
  next
    case False
    with "4.prems" have "snd (run (limit - 1) tn Agent (add_messages st (tn st)) sc) = Finished st'"
      by (simp add: run.simps snd_visit)
    from "4.IH" [OF False this] show ?thesis
      unfolding add_messages_def by (rule append_prefixD)
  qed
next
  case (5 limit tn st sc)
  then show ?case by (simp add: run.simps)
qed

subsection \<open>The claims about the graph\<close>

text \<open>
  C1.  When the last message of the state is an assistant message with tool calls,
  \<open>should_continue\<close> answers \<open>continue\<close> and the graph goes to the action node; when
  it has no tool calls, \<open>should_continue\<close> answers \<open>end\<close>, the graph goes to \<open>END\<close>,
  the run ends there with this state, and the content of that message is the answer
  read from the final state.
\<close>

theorem should_continue_routes:
  assumes "messages \<noteq> []" and "last messages = AIMessage c tcs"
  shows "(tcs \<noteq> [] \<longrightarrow>
            should_continue messages = Inr ''continue'' \<and> route messages = Inr Action)
       \<and> (tcs = [] \<longrightarrow>
            should_continue messages = Inr ''end'' \<and> route messages = Inr END
            \<and> run limit tn END messages sc = ([], Finished messages)
            \<and> latest_message_content messages = Inr c)"
  using assms
  by (cases messages)
     (auto simp: should_continue_def route_def path_map_def latest_message_content_def run.simps)

theorem should_continue_routes_witness:
  "should_continue [HumanMessage ''play'', AIMessage [] [ToolCall ''play_song_on_apple'' [] ''c1'']]
     = Inr ''continue''
   \<and> route [HumanMessage ''play'', AIMessage [] [ToolCall ''play_song_on_apple'' [] ''c1'']]
     = Inr Action
   \<and> should_continue [HumanMessage ''play'', AIMessage ''Done.'' []] = Inr ''end''
   \<and> route [HumanMessage ''play'', AIMessage ''Done.'' []] = Inr END
   \<and> latest_message_content [HumanMessage ''play'', AIMessage ''Done.'' []] = Inr ''Done.''"
  using should_continue_routes
          [of "[HumanMessage ''play'', AIMessage [] [ToolCall ''play_song_on_apple'' [] ''c1'']]"
              "[]" "[ToolCall ''play_song_on_apple'' [] ''c1'']" 25 TOOL_NODE "[]"]
        should_continue_routes
          [of "[HumanMessage ''play'', AIMessage ''Done.'' []]" "''Done.''" "[]" 25 TOOL_NODE "[]"]
  by simp







text \<open>
  C8.  A node's update is appended to the state; along every run, from any node, the
  state before the run and the states after each step form a chain in which every
  earlier state is a prefix of every later one; and the final state of a run that
  ends has the initial state as a prefix.
\<close>

theorem history_only_grows:
  "prefix st (add_messages st upd)
   \<and> sorted_wrt prefix (st # map snd (fst (run limit tn n st sc)))
   \<and> (snd (run limit tn n st sc) = Finished st' \<longrightarrow> prefix st st')"
  using run_events_prefix [of st limit tn n sc] run_finished_prefix [of limit tn n st sc st']
  by (simp add: add_messages_def del: sorted_wrt.simps)

theorem history_only_grows_witness:
  "snd (run 25 TOOL_NODE START [HumanMessage ''play''] [Inr (AIMessage ''Done.'' [])])
     = Finished [HumanMessage ''play'', AIMessage ''Done.'' []]
   \<and> prefix [HumanMessage ''play''] [HumanMessage ''play'', AIMessage ''Done.'' []]"
proof -
  have "(25 :: nat) = Suc 24"
    by simp
  then have fin: "snd (run 25 TOOL_NODE START [HumanMessage ''play''] [Inr (AIMessage ''Done.'' [])])
      = Finished [HumanMessage ''play'', AIMessage ''Done.'' []]"
    by (simp only: run_START snd_visit run_final is_final_answer.simps) simp
  with history_only_grows
         [of "[HumanMessage ''play'']" "[]" 25 TOOL_NODE START "[Inr (AIMessage ''Done.'' [])]"
             "[HumanMessage ''play'', AIMessage ''Done.'' []]"]
  show ?thesis by blast
qed

section \<open>Properties of the traced session\<close>

lemma main_success:
  "main cfg (Inr final_output) =
     (span_end
        (set_attribute
           (set_attribute
              (set_attribute
                 (set_attribute
                    (set_attribute
                       (set_attribute
                          (set_attribute (start_span (root_span_name (provider cfg)))
                             ''user.request''
                             (PyStr ''Hi, what can I do this weekend in Seattle?''))
                          ''gen_ai.provider.name'' (PyStr (provider cfg)))
                       ''gen_ai.request.model'' (PyStr (model_name cfg)))
                    ''agent.name'' (PyStr AGENT_name))
                 ''target.city'' (PyStr ''Seattle''))
              ''agent.response''
              (PyStr (take 500 (case final_output of None \<Rightarrow> [] | Some text \<Rightarrow> text))))
           ''request.success'' (PyBool True)),
      Inr ())"
  by (simp add: main_def Let_def exit_current_span_def)

lemma main_failure:
  "isinstance_Exception exc \<Longrightarrow>
   main cfg (Inl exc) =
     (span_end
        (set_status
           (record_exception
              (set_attribute
                 (record_exception
                    (set_attribute
                       (set_attribute
                          (set_attribute
                             (set_attribute
                                (set_attribute (start_span (root_span_name (provider cfg)))
                                   ''user.request''
                                   (PyStr ''Hi, what can I do this weekend in Seattle?''))
                                ''gen_ai.provider.name'' (PyStr (provider cfg)))
                             ''gen_ai.request.model'' (PyStr (model_name cfg)))
                          ''agent.name'' (PyStr AGENT_name))
                       ''target.city'' (PyStr ''Seattle''))
                    exc)
                 ''request.success'' (PyBool False))
              exc)
           ERROR),
      Inl exc)"
  by (simp add: main_def Let_def exit_current_span_def)

lemma main_not_an_Exception:
  "\<not> isinstance_Exception exc \<Longrightarrow>
   main cfg (Inl exc) =
     (span_end
        (set_attribute
           (set_attribute
              (set_attribute
                 (set_attribute
                    (set_attribute (start_span (root_span_name (provider cfg)))
                       ''user.request''
                       (PyStr ''Hi, what can I do this weekend in Seattle?''))
                    ''gen_ai.provider.name'' (PyStr (provider cfg)))
                 ''gen_ai.request.model'' (PyStr (model_name cfg)))
              ''agent.name'' (PyStr AGENT_name))
           ''target.city'' (PyStr ''Seattle'')),
      Inl exc)"
  by (simp add: main_def Let_def exit_current_span_def)

lemma attributes_span_end: "attributes (span_end s) = attributes s"
  by (simp add: span_end_def)

lemma attributes_set_status: "attributes (set_status s c) = attributes s"
  by (simp add: set_status_def)

lemma attributes_record_exception: "attributes (record_exception s e) = attributes s"
  by (simp add: record_exception_def)

lemma attributes_set_attribute:
  "attributes (set_attribute s k v) k' = (if k' = k then Some v else attributes s k')"
  by (simp add: set_attribute_def)

lemma ended_span_end: "ended (span_end s) = ended s + 1"
  by (simp add: span_end_def)

lemma ended_set_attribute: "ended (set_attribute s k v) = ended s"
  by (simp add: set_attribute_def)

lemma ended_set_status: "ended (set_status s c) = ended s"
  by (simp add: set_status_def)

lemma ended_record_exception: "ended (record_exception s e) = ended s"
  by (simp add: record_exception_def)

lemma ended_start_span: "ended (start_span n) = 0"
  by (simp add: start_span_def)

lemma exceptions_span_end: "exceptions (span_end s) = exceptions s"
  by (simp add: span_end_def)

lemma exceptions_set_attribute: "exceptions (set_attribute s k v) = exceptions s"
  by (simp add: set_attribute_def)

lemma exceptions_set_status: "exceptions (set_status s c) = exceptions s"
  by (simp add: set_status_def)

lemma exceptions_record_exception: "exceptions (record_exception s e) = exceptions s @ [e]"
  by (simp add: record_exception_def)

lemma exceptions_start_span: "exceptions (start_span n) = []"
  by (simp add: start_span_def)

lemma span_status_span_end: "span_status (span_end s) = span_status s"
  by (simp add: span_end_def)

lemma span_status_set_status: "span_status (set_status s c) = c"
  by (simp add: set_status_def)

lemma ended_main: "ended (fst (main cfg run_result)) = 1"
proof (cases run_result)
  case (Inl exc)
  then show ?thesis
    by (cases "isinstance_Exception exc")
       (simp_all add: main_failure main_not_an_Exception ended_span_end ended_set_attribute
          ended_set_status ended_record_exception ended_start_span)
next
  case (Inr final_output)
  then show ?thesis
    by (simp add: main_success ended_span_end ended_set_attribute ended_start_span)
qed

lemma main_reraises: "snd (main cfg (Inl exc)) = Inl exc"
  by (cases "isinstance_Exception exc") (simp_all add: main_failure main_not_an_Exception)

text \<open>
  C4.  Whatever \<open>Runner.run\<close> does, the root span has been ended exactly once when
  \<open>main\<close> is left.  When \<open>Runner.run\<close> returns, \<open>main\<close> returns normally and nothing is
  recorded on the span.  When it raises, \<open>main\<close> raises the same exception to its
  caller; and when the exception is an \<open>Exception\<close> (a failure, which the handler
  catches), it is recorded on the span, by the handler and again by the \<open>with\<close> block
  as the exception leaves it, the status of the span is \<open>ERROR\<close> and
  \<open>request.success\<close> is false.
\<close>

theorem root_span_closed_once:
  "ended (fst (main cfg run_result)) = 1
   \<and> (case run_result of
        Inr final_output \<Rightarrow>
          snd (main cfg run_result) = Inr ()
          \<and> exceptions (fst (main cfg run_result)) = []
      | Inl exc \<Rightarrow>
          snd (main cfg run_result) = Inl exc
          \<and> (isinstance_Exception exc \<longrightarrow>
                exc \<in> set (exceptions (fst (main cfg run_result)))
                \<and> exceptions (fst (main cfg run_result)) = [exc, exc]
                \<and> span_status (fst (main cfg run_result)) = ERROR
                \<and> attributes (fst (main cfg run_result)) ''request.success''
                    = Some (PyBool False)))"
proof (cases run_result)
  case (Inl exc)
  have "exceptions (fst (main cfg (Inl exc))) = [exc, exc]
      \<and> span_status (fst (main cfg (Inl exc))) = ERROR
      \<and> attributes (fst (main cfg (Inl exc))) ''request.success'' = Some (PyBool False)"
    if "isinstance_Exception exc"
    by (simp add: main_failure [OF that] exceptions_span_end exceptions_set_attribute
          exceptions_set_status exceptions_record_exception exceptions_start_span
          span_status_span_end span_status_set_status attributes_span_end
          attributes_set_status attributes_record_exception attributes_set_attribute)
  then show ?thesis
    using Inl ended_main [of cfg run_result] by (simp add: main_reraises)
next
  case (Inr final_output)
  then show ?thesis
    using ended_main [of cfg run_result]
    by (simp add: main_success exceptions_span_end exceptions_set_attribute
          exceptions_start_span)
qed

theorem root_span_closed_once_witness:
  "isinstance_Exception (RuntimeError ''model unreachable'')
   \<and> ended (fst (main \<lparr>build_client = AsyncOpenAI ''u'' ''k'', model_name = ''gpt-4o'',
                base_url = ''u'', provider = ''azure.ai.inference''\<rparr>
              (Inl (RuntimeError ''model unreachable'')))) = 1
   \<and> snd (main \<lparr>build_client = AsyncOpenAI ''u'' ''k'', model_name = ''gpt-4o'',
                base_url = ''u'', provider = ''azure.ai.inference''\<rparr>
              (Inl (RuntimeError ''model unreachable'')))
       = Inl (RuntimeError ''model unreachable'')
   \<and> exceptions (fst (main \<lparr>build_client = AsyncOpenAI ''u'' ''k'', model_name = ''gpt-4o'',
                base_url = ''u'', provider = ''azure.ai.inference''\<rparr>
              (Inl (RuntimeError ''model unreachable''))))
       = [RuntimeError ''model unreachable'', RuntimeError ''model unreachable'']
   \<and> span_status (fst (main \<lparr>build_client = AsyncOpenAI ''u'' ''k'', model_name = ''gpt-4o'',
                base_url = ''u'', provider = ''azure.ai.inference''\<rparr>
              (Inl (RuntimeError ''model unreachable'')))) = ERROR
   \<and> attributes (fst (main \<lparr>build_client = AsyncOpenAI ''u'' ''k'', model_name = ''gpt-4o'',
                base_url = ''u'', provider = ''azure.ai.inference''\<rparr>
              (Inl (RuntimeError ''model unreachable'')))) ''request.success''
       = Some (PyBool False)"
  using root_span_closed_once
          [of "\<lparr>build_client = AsyncOpenAI ''u'' ''k'', model_name = ''gpt-4o'',
                base_url = ''u'', provider = ''azure.ai.inference''\<rparr>"
              "Inl (RuntimeError ''model unreachable'')"]
  by simp

text \<open>
  C5.  After a run in which \<open>Runner.run\<close> returned, the root span carries the agent
  name, the request text and \<open>request.success\<close> true, and \<open>agent.response\<close> is a
  prefix of the answer (the final output, or the empty string when there is none) of
  at most 500 characters: its first 500 characters when the answer is longer, the
  whole answer otherwise.
\<close>

theorem session_span_attributes:
  "attributes (fst (main cfg (Inr final_output))) ''agent.name'' = Some (PyStr ''Weekend Planner'')
   \<and> attributes (fst (main cfg (Inr final_output))) ''user.request''
       = Some (PyStr ''Hi, what can I do this weekend in Seattle?'')
   \<and> attributes (fst (main cfg (Inr final_output))) ''request.success'' = Some (PyBool True)
   \<and> (\<exists>response.
         attributes (fst (main cfg (Inr final_output))) ''agent.response'' = Some (PyStr response)
         \<and> prefix response (case final_output of None \<Rightarrow> [] | Some text \<Rightarrow> text)
         \<and> length response \<le> 500
         \<and> (500 < length (case final_output of None \<Rightarrow> [] | Some text \<Rightarrow> text)
              \<longrightarrow> length response = 500)
         \<and> (length (case final_output of None \<Rightarrow> [] | Some text \<Rightarrow> text) \<le> 500
              \<longrightarrow> response = (case final_output of None \<Rightarrow> [] | Some text \<Rightarrow> text)))"
proof -
  let ?s = "fst (main cfg (Inr final_output))"
  let ?output = "case final_output of None \<Rightarrow> [] | Some text \<Rightarrow> text"
  have "attributes ?s ''agent.name'' = Some (PyStr ''Weekend Planner'')"
    by (simp add: main_success attributes_span_end attributes_set_attribute AGENT_name_def)
  moreover have "attributes ?s ''user.request''
      = Some (PyStr ''Hi, what can I do this weekend in Seattle?'')"
    by (simp add: main_success attributes_span_end attributes_set_attribute)
  moreover have "attributes ?s ''request.success'' = Some (PyBool True)"
    by (simp add: main_success attributes_span_end attributes_set_attribute)
  moreover have "attributes ?s ''agent.response'' = Some (PyStr (take 500 ?output))"
    by (simp add: main_success attributes_span_end attributes_set_attribute)
  moreover have "prefix (take 500 ?output) ?output"
    by (rule take_is_prefix)
  moreover have "length (take 500 ?output) \<le> 500"
    by simp
  moreover have "500 < length ?output \<longrightarrow> length (take 500 ?output) = 500"
    by simp
  moreover have "length ?output \<le> 500 \<longrightarrow> take 500 ?output = ?output"
    by simp
  ultimately show ?thesis by blast
qed



theorem session_span_attributes_witness:
  "attributes (fst (main \<lparr>build_client = AsyncOpenAI ''u'' ''k'', model_name = ''gpt-4o'',
                base_url = ''u'', provider = ''azure.ai.inference''\<rparr>
              (Inr (Some (replicate 501 CHR ''a''))))) ''agent.response''
     = Some (PyStr (replicate 500 CHR ''a''))
   \<and> attributes (fst (main \<lparr>build_client = AsyncOpenAI ''u'' ''k'', model_name = ''gpt-4o'',
                base_url = ''u'', provider = ''azure.ai.inference''\<rparr>
              (Inr (Some ''Go hiking on Saturday.'')))) ''agent.response''
     = Some (PyStr ''Go hiking on Saturday.'')"
proof -
  let ?cfg = "\<lparr>build_client = AsyncOpenAI ''u'' ''k'', model_name = ''gpt-4o'',
                base_url = ''u'', provider = ''azure.ai.inference''\<rparr>"
  let ?long = "replicate 501 CHR ''a''"
  have len: "500 < length ?long"
    by (simp only: length_replicate)
  from session_span_attributes [of ?cfg "Some ?long"]
  obtain r where r: "attributes (fst (main ?cfg (Inr (Some ?long)))) ''agent.response''
        = Some (PyStr r)"
    and pre: "prefix r ?long" and imp: "500 < length ?long \<longrightarrow> length r = 500"
    unfolding option.case by blast
  from imp len have lr: "length r = 500" by blast
  from pre obtain zs where "?long = r @ zs"
    by (auto simp: prefix_def)
  then have "take (length r) ?long = r"
    by (simp only: append_eq_conv_conj take_all order_refl append_take_drop_id take_append diff_self_eq_0 take_0 append_Nil2)
  with lr have "r = take 500 ?long"
    by (simp only:)
  also have "\<dots> = replicate 500 CHR ''a''"
    by (simp only: take_replicate) simp
  finally have "r = replicate 500 CHR ''a''" .
  moreover
  from session_span_attributes [of ?cfg "Some ''Go hiking on Saturday.''"]
  have "attributes (fst (main ?cfg (Inr (Some ''Go hiking on Saturday.'')))) ''agent.response''
      = Some (PyStr ''Go hiking on Saturday.'')"
    by auto
  ultimately show ?thesis using r by simp
qed

section \<open>Properties of the weather tool\<close>

text \<open>
  C9.  For every city (and date) and every value of the random draw, \<open>get_weather\<close>
  returns one of two results: temperature 72 with description Sunny, or temperature 60
  with description Rainy; and both results occur.
\<close>

theorem get_weather_two_values:
  "(get_weather draw city =
      [(''city'', PyStr city), (''temperature'', PyInt 72), (''description'', PyStr ''Sunny'')]
    \<or> get_weather draw city =
      [(''city'', PyStr city), (''temperature'', PyInt 60), (''description'', PyStr ''Rainy'')])
   \<and> (get_weather_langchain draw city date =
        [(''temperature'', PyInt 72), (''description'', PyStr ''Sunny'')]
      \<or> get_weather_langchain draw city date =
        [(''temperature'', PyInt 60), (''description'', PyStr ''Rainy'')])
   \<and> ((map_of (get_weather draw city) ''temperature'' = Some (PyInt 72)
        \<and> map_of (get_weather draw city) ''description'' = Some (PyStr ''Sunny''))
      \<or> (map_of (get_weather draw city) ''temperature'' = Some (PyInt 60)
        \<and> map_of (get_weather draw city) ''description'' = Some (PyStr ''Rainy'')))
   \<and> map_of (get_weather 0 city) ''temperature'' = Some (PyInt 72)
   \<and> map_of (get_weather (1 / 2) city) ''temperature'' = Some (PyInt 60)"
  by (simp add: get_weather_def get_weather_langchain_def)

section \<open>Properties of the tool node and of the checkpointer\<close>

subsection \<open>Feedback order\<close>


lemma map_of_completed:
  "i < length calls \<Longrightarrow> i \<in> set completion \<Longrightarrow>
   map_of (completed_results registry completion calls) i = Some (execute registry (calls ! i))"
  unfolding completed_results_def
  by (induction completion) auto

lemma map_filter_all_Some:
  "(\<And>x. x \<in> set xs \<Longrightarrow> f x = Some (g x)) \<Longrightarrow> List.map_filter f xs = map g xs"
  by (induction xs) simp_all

lemma dispatch_all_request_order:
  assumes "set completion = {0..<length calls}"
  shows "dispatch_all registry completion calls = map (execute registry) calls"
proof -
  have "dispatch_all registry completion calls =
      map (\<lambda>i. execute registry (calls ! i)) [0..<length calls]"
    unfolding dispatch_all_def
    by (rule map_filter_all_Some) (simp add: map_of_completed assms)
  also have "\<dots> = map (execute registry) (map ((!) calls) [0..<length calls])"
    by simp
  also have "\<dots> = map (execute registry) calls"
    by (simp only: map_nth)
  finally show ?thesis .
qed

lemma tool_call_id_execute: "tool_call_id (execute registry call) = tc_id call"
  by (simp add: execute_def split: option.split sum.split)

text \<open>
  C7.  When every pending request is executed, in whatever order the executions
  complete, the tool messages the action step returns are the results of the requests
  in the order of \<open>tool_calls\<close>: the same list as executing them one after the other,
  with the call ids in request order, and that list is what is appended to the state.
\<close>

theorem feedback_in_request_order:
  assumes "set completion = {0..<length (pending_calls messages)}"
  shows "action_node registry completion messages = map (execute registry) (pending_calls messages)
       \<and> map tool_call_id (action_node registry completion messages)
           = map tc_id (pending_calls messages)
       \<and> add_messages messages (action_node registry completion messages)
           = messages @ map (execute registry) (pending_calls messages)"
  using dispatch_all_request_order [OF assms, of registry]
  by (simp add: action_node_def add_messages_def tool_call_id_execute comp_def)

theorem feedback_in_request_order_witness:
  "set [1, 0] =
     {0..<length (pending_calls
        [HumanMessage ''play'',
         AIMessage [] [ToolCall ''play_song_on_spotify'' [(''song'', ''A'')] ''c1'',
                       ToolCall ''play_song_on_apple'' [(''song'', ''B'')] ''c2'']])}
   \<and> action_node tool_registry [1, 0]
        [HumanMessage ''play'',
         AIMessage [] [ToolCall ''play_song_on_spotify'' [(''song'', ''A'')] ''c1'',
                       ToolCall ''play_song_on_apple'' [(''song'', ''B'')] ''c2'']]
      = [ToolMessage ''Successfully played A on Spotify!'' ''c1'' StatusSuccess,
         ToolMessage ''Successfully played B on Apple Music!'' ''c2'' StatusSuccess]"
proof -
  let ?st = "[HumanMessage ''play'',
         AIMessage [] [ToolCall ''play_song_on_spotify'' [(''song'', ''A'')] ''c1'',
                       ToolCall ''play_song_on_apple'' [(''song'', ''B'')] ''c2'']]"
  have calls: "pending_calls ?st =
      [ToolCall ''play_song_on_spotify'' [(''song'', ''A'')] ''c1'',
       ToolCall ''play_song_on_apple'' [(''song'', ''B'')] ''c2'']"
    by (simp add: pending_calls_def)
  have order: "set [1, 0] = {0..<length (pending_calls ?st)}"
    unfolding calls by auto
  from feedback_in_request_order [OF order, of tool_registry]
  have "action_node tool_registry [1, 0] ?st = map (execute tool_registry) (pending_calls ?st)"
    by blast
  also have "\<dots> = [ToolMessage ''Successfully played A on Spotify!'' ''c1'' StatusSuccess,
         ToolMessage ''Successfully played B on Apple Music!'' ''c2'' StatusSuccess]"
    unfolding calls
    by (simp add: execute_def tool_registry_def song_capability_def play_song_on_spotify_def
          play_song_on_apple_def)
  finally show ?thesis using order by blast
qed

subsection \<open>Checkpoint and restore\<close>

lemma load_append:
  "load store tid = Inr msgs \<Longrightarrow>
   \<exists>store'. append require_registration store tid m = Inr store'
      \<and> load store' tid = Inr (msgs @ [m])"
  by (auto simp: load_def append_def split: option.splits)

lemma load_append_all:
  "load store tid = Inr msgs \<Longrightarrow>
   \<exists>store'. append_all require_registration store tid later = Inr store'
      \<and> load store' tid = Inr (msgs @ later)"
proof (induction later arbitrary: store msgs)
  case Nil
  then show ?case by simp
next
  case (Cons m later)
  from load_append [OF Cons.prems, of require_registration m]
  obtain s1 where s1: "append require_registration store tid m = Inr s1"
    and l1: "load s1 tid = Inr (msgs @ [m])"
    by blast
  from Cons.IH [OF l1] s1 show ?case by simp
qed

lemma checkpoint_of_load:
  "load store tid = Inr msgs \<Longrightarrow>
   checkpoint store tid = Inr \<lparr>snap_thread_id = tid, snap_messages = msgs\<rparr>"
  by (auto simp: load_def checkpoint_def split: option.splits)

text \<open>
  C6.  For a thread of the store with message sequence \<open>msgs\<close>, \<open>checkpoint\<close> returns a
  token and \<open>restore\<close> of that token has exactly the sequence \<open>msgs\<close> and the thread
  id; this holds again after any further messages are appended (the later checkpoint
  restores to the longer sequence), while the earlier token still restores to \<open>msgs\<close>.
\<close>

theorem checkpoint_restore_roundtrip:
  assumes "load store tid = Inr msgs"
  shows "\<exists>token. checkpoint store tid = Inr token
          \<and> cs_messages (restore count_turns token) = msgs
          \<and> cs_thread_id (restore count_turns token) = tid
          \<and> (\<exists>store'. append_all require_registration store tid later = Inr store'
                \<and> load store' tid = Inr (msgs @ later)
                \<and> cs_messages (restore count_turns token) = msgs
                \<and> (\<exists>token'. checkpoint store' tid = Inr token'
                      \<and> cs_messages (restore count_turns token') = msgs @ later))"
proof -
  from load_append_all [OF assms, of require_registration later]
  obtain store' where "append_all require_registration store tid later = Inr store'"
    and "load store' tid = Inr (msgs @ later)"
    by blast
  then show ?thesis
    using checkpoint_of_load [OF assms] checkpoint_of_load [of store' tid "msgs @ later"]
    by (simp add: restore_def)
qed

theorem checkpoint_restore_roundtrip_witness:
  "load [''1'' \<mapsto> \<lparr>cs_thread_id = ''1'',
                  cs_messages = [HumanMessage ''play'', AIMessage ''Done.'' []],
                  cs_turn_count = 1\<rparr>] ''1''
     = Inr [HumanMessage ''play'', AIMessage ''Done.'' []]
   \<and> (\<exists>token.
         checkpoint [''1'' \<mapsto> \<lparr>cs_thread_id = ''1'',
                  cs_messages = [HumanMessage ''play'', AIMessage ''Done.'' []],
                  cs_turn_count = 1\<rparr>] ''1'' = Inr token
         \<and> cs_messages (restore length token) = [HumanMessage ''play'', AIMessage ''Done.'' []])"
proof -
  let ?store = "[''1'' \<mapsto> \<lparr>cs_thread_id = ''1'',
                  cs_messages = [HumanMessage ''play'', AIMessage ''Done.'' []],
                  cs_turn_count = 1\<rparr>]"
  have l: "load ?store ''1'' = Inr [HumanMessage ''play'', AIMessage ''Done.'' []]"
    by (simp add: load_def)
  from checkpoint_restore_roundtrip [OF l, of length False "[]"] l
  show ?thesis by blast
qed

section \<open>Properties of the configuration\<close>










end
